theory Spec2Isabelle
  imports Complex_Main
begin

section \<open>Radiation pressure on panelled bodies (Tudat)\<close>

text \<open>
  A shallow embedding of the reflection law of
  \<^verbatim>\<open>src/astro/electromagnetism/reflectionLaw.cpp\<close> and of the panelled radiation
  pressure acceleration of
  \<^verbatim>\<open>Tudat/Astrodynamics/ElectroMagnetism/panelledRadiationPressure.h\<close>.

  Numbers: the C++ \<^verbatim>\<open>double\<close> quantities that the code computes with
  (reflectivities, areas, irradiance, vector components) are idealised as \<^typ>\<open>real\<close>;
  rounding, overflow and the propagation of infinities are outside the model. The time
  stamp of the cache is never computed with, only compared, and there the IEEE special
  value NaN decides what the code does, so time stamps are modelled by the type
  \<open>double\<close> below, which has NaN.
\<close>

subsection \<open>Eigen::Vector3d\<close>

datatype vec3 = Vector3d (vx: real) (vy: real) (vz: real)

instantiation vec3 :: real_vector
begin

definition zero_vec3 :: vec3 where
  "zero_vec3 = Vector3d 0 0 0"

definition plus_vec3 :: "vec3 \<Rightarrow> vec3 \<Rightarrow> vec3" where
  "plus_vec3 a b = Vector3d (vx a + vx b) (vy a + vy b) (vz a + vz b)"

definition uminus_vec3 :: "vec3 \<Rightarrow> vec3" where
  "uminus_vec3 a = Vector3d (- vx a) (- vy a) (- vz a)"

definition minus_vec3 :: "vec3 \<Rightarrow> vec3 \<Rightarrow> vec3" where
  "minus_vec3 a b = Vector3d (vx a - vx b) (vy a - vy b) (vz a - vz b)"

definition scaleR_vec3 :: "real \<Rightarrow> vec3 \<Rightarrow> vec3" where
  "scaleR_vec3 k a = Vector3d (k * vx a) (k * vy a) (k * vz a)"

instance
proof
  fix a b c :: vec3 and k l :: real
  show "a + b + c = a + (b + c)"
    by (simp add: plus_vec3_def)
  show "a + b = b + a"
    by (simp add: plus_vec3_def)
  show "0 + a = a"
    by (cases a) (simp add: plus_vec3_def zero_vec3_def)
  show "- a + a = 0"
    by (simp add: plus_vec3_def uminus_vec3_def zero_vec3_def)
  show "a - b = a + - b"
    by (simp add: plus_vec3_def uminus_vec3_def minus_vec3_def)
  show "k *\<^sub>R (a + b) = k *\<^sub>R a + k *\<^sub>R b"
    by (simp add: plus_vec3_def scaleR_vec3_def algebra_simps)
  show "(k + l) *\<^sub>R a = k *\<^sub>R a + l *\<^sub>R a"
    by (simp add: plus_vec3_def scaleR_vec3_def algebra_simps)
  show "k *\<^sub>R l *\<^sub>R a = (k * l) *\<^sub>R a"
    by (simp add: scaleR_vec3_def)
  show "1 *\<^sub>R a = a"
    by (cases a) (simp add: scaleR_vec3_def)
qed

end

text \<open>\<^verbatim>\<open>a.dot(b)\<close>, \<^verbatim>\<open>a.squaredNorm()\<close> and \<^verbatim>\<open>a.norm()\<close> of Eigen.\<close>

definition dot :: "vec3 \<Rightarrow> vec3 \<Rightarrow> real" where
  "dot a b = vx a * vx b + vy a * vy b + vz a * vz b"

definition squaredNorm :: "vec3 \<Rightarrow> real" where
  "squaredNorm a = dot a a"

definition norm3 :: "vec3 \<Rightarrow> real" where
  "norm3 a = sqrt (squaredNorm a)"

text \<open>
  \<^verbatim>\<open>a.normalize()\<close>: Eigen divides by the norm when the squared norm is positive and
  leaves the vector as it is otherwise.
\<close>

definition normalize :: "vec3 \<Rightarrow> vec3" where
  "normalize a = (if squaredNorm a > 0 then (1 / sqrt (squaredNorm a)) *\<^sub>R a else a)"

text \<open>
  \<^verbatim>\<open>a.isApprox(b)\<close> with the default precision: Eigen's fuzzy comparison of two
  vectors, \<open>\<parallel>a - b\<parallel>\<^sup>2 \<le> p\<^sup>2 \<sqdot> min \<parallel>a\<parallel>\<^sup>2 \<parallel>b\<parallel>\<^sup>2\<close>, where the precision \<open>p\<close> of
  \<^verbatim>\<open>double\<close> is \<^verbatim>\<open>NumTraits<double>::dummy_precision() = 1e-12\<close>.
\<close>

definition dummy_precision :: real where
  "dummy_precision = 1 / 10 ^ 12"

definition isApprox :: "vec3 \<Rightarrow> vec3 \<Rightarrow> bool" where
  "isApprox a b \<longleftrightarrow>
     squaredNorm (a - b) \<le> dummy_precision * dummy_precision * min (squaredNorm a) (squaredNorm b)"

subsection \<open>The specular/diffuse mix reflection law\<close>

text \<open>
  The members that \<^verbatim>\<open>reflectionLaw.cpp\<close> reads from the law object. Isabelle
  does not accept a name that ends in an underscore, so the trailing underscore of a
  C++ member name is dropped throughout.
\<close>

record SpecularDiffuseMixReflectionLaw =
  absorptivity :: real
  specularReflectivity :: real
  diffuseReflectivity :: real
  withInstantaneousLambertianReradiation :: bool

definition computeMirrorlikeReflection :: "vec3 \<Rightarrow> vec3 \<Rightarrow> vec3" where
  "computeMirrorlikeReflection vectorToMirror surfaceNormal =
     (let vectorDotNormal = dot vectorToMirror surfaceNormal in
      if vectorDotNormal \<ge> 0 then 0
      else vectorToMirror - (2 * vectorDotNormal) *\<^sub>R surfaceNormal)"

definition evaluateReflectedFraction ::
  "SpecularDiffuseMixReflectionLaw \<Rightarrow> vec3 \<Rightarrow> vec3 \<Rightarrow> vec3 \<Rightarrow> real" where
  "evaluateReflectedFraction law surfaceNormal incomingDirection observerDirection =
     (let cosBetweenNormalAndIncoming = dot surfaceNormal (- incomingDirection);
          cosBetweenNormalAndObserver = dot surfaceNormal observerDirection in
      if cosBetweenNormalAndIncoming \<le> 0 \<or> cosBetweenNormalAndObserver \<le> 0 then 0
      else
        let diffuseReflectance = diffuseReflectivity law / pi;
            mirrorOfIncomingDirection = computeMirrorlikeReflection incomingDirection surfaceNormal in
        if isApprox observerDirection mirrorOfIncomingDirection then
          let specularReflectance = specularReflectivity law / cosBetweenNormalAndIncoming in
          diffuseReflectance + specularReflectance
        else diffuseReflectance)"

definition evaluateReactionVector ::
  "SpecularDiffuseMixReflectionLaw \<Rightarrow> vec3 \<Rightarrow> vec3 \<Rightarrow> vec3" where
  "evaluateReactionVector law surfaceNormal incomingDirection =
     (let cosBetweenNormalAndIncoming = dot surfaceNormal (- incomingDirection) in
      if cosBetweenNormalAndIncoming \<le> 0 then 0
      else
        let reactionFromIncidence =
              (absorptivity law + diffuseReflectivity law) *\<^sub>R incomingDirection;
            reactionFromReflection =
              (- (2 / 3 * diffuseReflectivity law
                  + 2 * specularReflectivity law * cosBetweenNormalAndIncoming)) *\<^sub>R surfaceNormal;
            reactionFromInstantaneousReradiation =
              (if withInstantaneousLambertianReradiation law
               then (- (2 / 3 * absorptivity law)) *\<^sub>R surfaceNormal
               else 0) in
        reactionFromIncidence + reactionFromReflection + reactionFromInstantaneousReradiation)"

subsection \<open>Time stamps\<close>

text \<open>
  A time stamp is a \<^verbatim>\<open>double\<close> that the code only stores and compares with
  \<^verbatim>\<open>==\<close>. IEEE equality holds between a value that is not NaN and itself (the two
  zeros are one \<open>Finite 0\<close> here), and never when either side is NaN.
\<close>

datatype double = Finite real | PlusInfinity | MinusInfinity | NaN

definition double_eq :: "double \<Rightarrow> double \<Rightarrow> bool" where
  "double_eq a b \<longleftrightarrow> a \<noteq> NaN \<and> b \<noteq> NaN \<and> a = b"

text \<open>
  Modelled from the spec: the macro \<^verbatim>\<open>TUDAT_NAN\<close>, the default argument of
  \<^verbatim>\<open>updateMembers\<close>, is not defined in the sources at hand; the specification calls it
  the sentinel "not-a-time" value, and its name says that it is a NaN.
\<close>

definition TUDAT_NAN :: double where
  "TUDAT_NAN = NaN"

subsection \<open>PanelledRadiationPressureAcceleration\<close>

text \<open>
  The providers are \<^verbatim>\<open>boost::function< T( ) >\<close> objects: they take no argument and
  read the environment (ephemerides, attitude, body properties) as it is when they are
  called. The environment is a value \<open>w\<close> of an arbitrary type \<open>'w\<close> and a provider is a
  function of it.

  \<open>invocations\<close> is not a member of the C++ class: it is the instrumentation that records,
  in the order of the program text, which provider has been called, so that "no provider
  is invoked" can be stated. Where C++ leaves the order of evaluation of operands and
  arguments open, the providers read the same environment, and the order does not change
  the values.

  \<open>currentTime\<close> is the member \<^verbatim>\<open>currentTime_\<close> of the base class
  \<^verbatim>\<open>AccelerationModel\<close>. \<^verbatim>\<open>numberOfPanels_\<close> and the loop counter are C++
  \<^verbatim>\<open>int\<close>s that count up from zero; they are natural numbers here.
\<close>

datatype provider =
    SourcePosition
  | AcceleratedBodyPosition
  | RadiationPressure
  | Mass
  | PanelSurfaceNormal nat
  | PanelArea nat
  | PanelEmmisivitty nat
  | PanelDiffuseReflectionCoefficient nat

datatype error = UndefinedBehaviour

record 'w PanelledRadiationPressureAcceleration =
  sourcePositionFunction :: "'w \<Rightarrow> vec3"
  acceleratedBodyPositionFunction :: "'w \<Rightarrow> vec3"
  radiationPressureFunction :: "'w \<Rightarrow> real"
  panelEmmisivittyFunctions :: "('w \<Rightarrow> real) list"
  panelDiffuseReflectionCoefficientFunctions :: "('w \<Rightarrow> real) list"
  panelSurfaceNormalFunctions :: "('w \<Rightarrow> vec3) list"
  panelAreaFunctions :: "('w \<Rightarrow> real) list"
  massFunction :: "'w \<Rightarrow> real"
  currentPanelAccelerations :: "vec3 list"
  numberOfPanels :: nat
  currentRadiationPressure :: real
  currentNormalizedVectorToSource :: vec3
  currentDistanceToSource :: real
  currentMass :: real
  currentAcceleration :: vec3
  currentTime :: double
  invocations :: "provider list"

text \<open>
  Modelled from the spec: the constructor of the base class \<^verbatim>\<open>AccelerationModel\<close>
  (\<^verbatim>\<open>accelerationModel.h\<close>, not among the sources at hand) initialises the cached time
  \<^verbatim>\<open>currentTime_\<close>; by the specification ("caches initialized to the always-recompute
  sentinel") its initial value is the sentinel.
\<close>

definition AccelerationModel_initialTime :: double where
  "AccelerationModel_initialTime = TUDAT_NAN"

text \<open>
  The first constructor. It initialises the providers, resizes the vector of panel
  accelerations to the number of emissivity providers and sets the number of panels to
  that size; the cached time is what the base class makes it. The members it does not
  initialise hold indeterminate values: the record \<open>indeterminate\<close> supplies them, and a
  statement about a constructed object is a statement for every such record.
\<close>

record indeterminate =
  panelAccelerationValue :: "nat \<Rightarrow> vec3"
  radiationPressureValue :: real
  normalizedVectorToSourceValue :: vec3
  distanceToSourceValue :: real
  massValue :: real
  accelerationValue :: vec3

definition newPanelledRadiationPressureAcceleration ::
  "('w \<Rightarrow> vec3) \<Rightarrow> ('w \<Rightarrow> vec3) \<Rightarrow> ('w \<Rightarrow> real) list \<Rightarrow> ('w \<Rightarrow> real) list \<Rightarrow>
   ('w \<Rightarrow> vec3) list \<Rightarrow> ('w \<Rightarrow> real) list \<Rightarrow> ('w \<Rightarrow> real) \<Rightarrow> ('w \<Rightarrow> real) \<Rightarrow>
   indeterminate \<Rightarrow> 'w PanelledRadiationPressureAcceleration" where
  "newPanelledRadiationPressureAcceleration sourcePositionFunction' acceleratedBodyPositionFunction'
     panelEmmisivittyFunctions' panelDiffuseReflectionCoefficientFunctions'
     panelSurfaceNormalFunctions' panelAreaFunctions' radiationPressureFunction' massFunction' u =
   \<lparr> sourcePositionFunction = sourcePositionFunction',
     acceleratedBodyPositionFunction = acceleratedBodyPositionFunction',
     radiationPressureFunction = radiationPressureFunction',
     panelEmmisivittyFunctions = panelEmmisivittyFunctions',
     panelDiffuseReflectionCoefficientFunctions = panelDiffuseReflectionCoefficientFunctions',
     panelSurfaceNormalFunctions = panelSurfaceNormalFunctions',
     panelAreaFunctions = panelAreaFunctions',
     massFunction = massFunction',
     currentPanelAccelerations =
       map (panelAccelerationValue u) [0 ..< length panelEmmisivittyFunctions'],
     numberOfPanels = length panelEmmisivittyFunctions',
     currentRadiationPressure = radiationPressureValue u,
     currentNormalizedVectorToSource = normalizedVectorToSourceValue u,
     currentDistanceToSource = distanceToSourceValue u,
     currentMass = massValue u,
     currentAcceleration = accelerationValue u,
     currentTime = AccelerationModel_initialTime,
     invocations = [] \<rparr>"

definition getAcceleration :: "'w PanelledRadiationPressureAcceleration \<Rightarrow> vec3" where
  "getAcceleration s = currentAcceleration s"

text \<open>
  \<^verbatim>\<open>currentPanelAccelerations_[ panelIndex ]\<close> reads a \<^verbatim>\<open>std::vector\<close> without a
  bounds check: out of range the behaviour is undefined, which the model reports.
\<close>

definition getCurrentPanelAcceleration ::
  "'w PanelledRadiationPressureAcceleration \<Rightarrow> nat \<Rightarrow> error + vec3" where
  "getCurrentPanelAcceleration s panelIndex =
     (if panelIndex < length (currentPanelAccelerations s)
      then Inr (currentPanelAccelerations s ! panelIndex)
      else Inl UndefinedBehaviour)"

text \<open>
  The body of the loop over the panels, for the panel \<open>i\<close>. The function
  \<^verbatim>\<open>computeSinglePanelNormalizedRadiationPressureForce\<close> is declared in the header and
  defined elsewhere; it is the parameter \<open>panelForce\<close>. Every indexed vector is read or
  written without a bounds check.
\<close>

type_synonym panelForceFunction = "vec3 \<Rightarrow> vec3 \<Rightarrow> real \<Rightarrow> real \<Rightarrow> real \<Rightarrow> vec3"

definition updatePanel ::
  "panelForceFunction \<Rightarrow> 'w \<Rightarrow> 'w PanelledRadiationPressureAcceleration \<Rightarrow> nat \<Rightarrow>
   error + 'w PanelledRadiationPressureAcceleration" where
  "updatePanel panelForce w s i =
     (if i < length (currentPanelAccelerations s)
         \<and> i < length (panelSurfaceNormalFunctions s)
         \<and> i < length (panelAreaFunctions s)
         \<and> i < length (panelEmmisivittyFunctions s)
         \<and> i < length (panelDiffuseReflectionCoefficientFunctions s)
      then
        let panelAcceleration =
              (currentRadiationPressure s / massFunction s w) *\<^sub>R
                panelForce (currentNormalizedVectorToSource s)
                  ((panelSurfaceNormalFunctions s ! i) w)
                  ((panelAreaFunctions s ! i) w)
                  ((panelEmmisivittyFunctions s ! i) w)
                  ((panelDiffuseReflectionCoefficientFunctions s ! i) w) in
        Inr (s\<lparr> currentPanelAccelerations := (currentPanelAccelerations s)[i := panelAcceleration],
                currentAcceleration := currentAcceleration s + panelAcceleration,
                invocations := invocations s @
                  [Mass, PanelSurfaceNormal i, PanelArea i, PanelEmmisivitty i,
                   PanelDiffuseReflectionCoefficient i] \<rparr>)
      else Inl UndefinedBehaviour)"

text \<open>The loop \<^verbatim>\<open>for( int i = 0; i < numberOfPanels_; i++ )\<close>, entered at \<open>i\<close>.\<close>

function updatePanels ::
  "panelForceFunction \<Rightarrow> 'w \<Rightarrow> 'w PanelledRadiationPressureAcceleration \<Rightarrow> nat \<Rightarrow>
   error + 'w PanelledRadiationPressureAcceleration" where
  "updatePanels panelForce w s i =
     (if i < numberOfPanels s then
        (case updatePanel panelForce w s i of
           Inl e \<Rightarrow> Inl e
         | Inr s' \<Rightarrow> updatePanels panelForce w s' (i + 1))
      else Inr s)"
  by pat_completeness auto
termination
  by (relation "measure (\<lambda>(panelForce, w, s, i). numberOfPanels s - i)")
     (auto simp: updatePanel_def Let_def split: if_splits)

declare updatePanels.simps [simp del]

definition updateMembers ::
  "panelForceFunction \<Rightarrow> 'w \<Rightarrow> 'w PanelledRadiationPressureAcceleration \<Rightarrow> double \<Rightarrow>
   error + 'w PanelledRadiationPressureAcceleration" where
  "updateMembers panelForce w s t =
     (if \<not> double_eq (currentTime s) t then
        let vectorToSource = sourcePositionFunction s w - acceleratedBodyPositionFunction s w;
            s1 = s\<lparr> currentNormalizedVectorToSource := normalize vectorToSource,
                    currentDistanceToSource := norm3 vectorToSource,
                    currentRadiationPressure := radiationPressureFunction s w,
                    currentMass := massFunction s w,
                    currentAcceleration := 0,
                    invocations := invocations s @
                      [SourcePosition, AcceleratedBodyPosition, RadiationPressure, Mass] \<rparr> in
        (case (if currentRadiationPressure s1 > 0 then updatePanels panelForce w s1 0 else Inr s1) of
           Inl e \<Rightarrow> Inl e
         | Inr s2 \<Rightarrow> Inr (s2\<lparr> currentTime := t \<rparr>))
      else Inr s)"

text \<open>
  None of the indexed accesses of the loop leaves its vector: every vector has at least
  \<^verbatim>\<open>numberOfPanels_\<close> elements. The constructor establishes this when it is given
  as many normal, area and diffuse-coefficient providers as emissivity providers.
\<close>

definition panelVectorsInRange :: "'w PanelledRadiationPressureAcceleration \<Rightarrow> bool" where
  "panelVectorsInRange s \<longleftrightarrow>
     numberOfPanels s \<le> length (currentPanelAccelerations s)
     \<and> numberOfPanels s \<le> length (panelSurfaceNormalFunctions s)
     \<and> numberOfPanels s \<le> length (panelAreaFunctions s)
     \<and> numberOfPanels s \<le> length (panelEmmisivittyFunctions s)
     \<and> numberOfPanels s \<le> length (panelDiffuseReflectionCoefficientFunctions s)"

subsection \<open>Radiation pressure target models\<close>

text \<open>
  Modelled from the spec: the constant \<^verbatim>\<open>physical_constants::SPEED_OF_LIGHT\<close> is not
  among the sources at hand; it is the speed of light in m/s ("about 3e8"). No theorem
  below depends on its value.
\<close>

definition speedOfLight :: real where
  "speedOfLight = 299792458"

text \<open>
  Modelled from the spec: \<^verbatim>\<open>reflectionLawFromSpecularAndDiffuseReflectivity\<close> is called by
  the unit tests and defined in \<^verbatim>\<open>reflectionLaw.h\<close>, which is not among the sources at
  hand. By the invariant of the data model the three coefficients sum to one, so the
  absorptivity is what the two reflectivities leave, and there is no reradiation.
\<close>

definition reflectionLawFromSpecularAndDiffuseReflectivity ::
  "real \<Rightarrow> real \<Rightarrow> SpecularDiffuseMixReflectionLaw" where
  "reflectionLawFromSpecularAndDiffuseReflectivity specularReflectivity' diffuseReflectivity' =
     \<lparr> absorptivity = 1 - specularReflectivity' - diffuseReflectivity',
       specularReflectivity = specularReflectivity',
       diffuseReflectivity = diffuseReflectivity',
       withInstantaneousLambertianReradiation = False \<rparr>"

text \<open>
  Modelled from the spec: the class \<^verbatim>\<open>CannonballRadiationPressureTargetModel\<close>
  (\<^verbatim>\<open>radiationPressureTargetModel.h/.cpp\<close>) is not among the sources at hand, only its
  unit tests are. Sections 3 and 4.3 of the specification: the model has a reference
  area and a radiation pressure coefficient.
\<close>

record CannonballRadiationPressureTargetModel =
  referenceArea :: real
  radiationPressureCoefficient :: real

text \<open>
  Modelled from the spec: \<^verbatim>\<open>CannonballRadiationPressureTargetModel::evaluateRadiationPressureForce\<close>,
  section 4.3: the force is the radiation pressure (irradiance over the speed of light)
  times the area times the coefficient, along the source-to-target direction.
\<close>

definition Cannonball_evaluateRadiationPressureForce ::
  "CannonballRadiationPressureTargetModel \<Rightarrow> real \<Rightarrow> vec3 \<Rightarrow> vec3" where
  "Cannonball_evaluateRadiationPressureForce m sourceIrradiance sourceToTargetDirection =
     (let radiationPressure = sourceIrradiance / speedOfLight;
          forceMagnitude = radiationPressure * referenceArea m * radiationPressureCoefficient m in
      forceMagnitude *\<^sub>R sourceToTargetDirection)"

text \<open>
  Modelled from the spec: the class \<^verbatim>\<open>PaneledRadiationPressureTargetModel\<close> and its
  \<^verbatim>\<open>Panel\<close> are not among the sources at hand either. Section 3 of the specification:
  a panel has an area, a surface normal and a reflection law. The unit tests build a
  panel from a fixed normal, as here.
\<close>

record Panel =
  area :: real
  surfaceNormal :: vec3
  reflectionLaw :: SpecularDiffuseMixReflectionLaw

text \<open>
  Modelled from the spec: \<^verbatim>\<open>PaneledRadiationPressureTargetModel::evaluateRadiationPressureForce\<close>,
  section 4.4: the force is accumulated over the panels in their order, each adding the
  radiation pressure times its area times the reaction vector of its law at its normal
  (the reaction vector is the code's \<open>evaluateReactionVector\<close>).
\<close>

definition Paneled_evaluateRadiationPressureForce ::
  "Panel list \<Rightarrow> real \<Rightarrow> vec3 \<Rightarrow> vec3" where
  "Paneled_evaluateRadiationPressureForce panels sourceIrradiance sourceToTargetDirection =
     foldl (\<lambda>force panel.
              let reactionVector =
                    evaluateReactionVector (reflectionLaw panel) (surfaceNormal panel)
                      sourceToTargetDirection in
              force + (sourceIrradiance / speedOfLight * area panel) *\<^sub>R reactionVector)
       0 panels"

subsection \<open>A concrete acceleration model\<close>

text \<open>
  An instance on which the theorems below are exercised: a source at \<open>(1, 0, 0)\<close>, the
  body at the origin with mass 10, and two panels. The environment is the one-element
  type. The panel force has the shape of Eq. (3.72) of Montenbruck and Gill, which the
  header cites for \<^verbatim>\<open>computeSinglePanelNormalizedRadiationPressureForce\<close>; the theorems
  hold for every panel force function.
\<close>

definition examplePanelForce :: panelForceFunction where
  "examplePanelForce vectorToSource panelSurfaceNormal panelArea panelEmmisivitty panelDiffuse =
     (- (panelArea * dot vectorToSource panelSurfaceNormal)) *\<^sub>R
       ((1 - panelEmmisivitty) *\<^sub>R vectorToSource
        + (2 * (panelEmmisivitty * dot vectorToSource panelSurfaceNormal + panelDiffuse / 3)) *\<^sub>R
            panelSurfaceNormal)"

definition exampleIndeterminate :: indeterminate where
  "exampleIndeterminate =
     \<lparr> panelAccelerationValue = (\<lambda>i. Vector3d 7 7 7),
       radiationPressureValue = 42,
       normalizedVectorToSourceValue = Vector3d 3 3 3,
       distanceToSourceValue = - 1,
       massValue = - 2,
       accelerationValue = Vector3d 9 9 9 \<rparr>"

definition exampleModel :: "real \<Rightarrow> unit PanelledRadiationPressureAcceleration" where
  "exampleModel pressure =
     newPanelledRadiationPressureAcceleration
       (\<lambda>w. Vector3d 1 0 0) (\<lambda>w. Vector3d 0 0 0)
       [\<lambda>w. 0.5, \<lambda>w. 0.25] [\<lambda>w. 0.1, \<lambda>w. 0.2]
       [\<lambda>w. Vector3d 1 0 0, \<lambda>w. Vector3d 0 1 0] [\<lambda>w. 2, \<lambda>w. 3]
       (\<lambda>w. pressure) (\<lambda>w. 10) exampleIndeterminate"

section \<open>Properties of the reflection law\<close>

lemmas vec3_defs = zero_vec3_def plus_vec3_def uminus_vec3_def minus_vec3_def scaleR_vec3_def

lemma isApprox_refl: "isApprox a a"
  by (simp add: isApprox_def squaredNorm_def dot_def dummy_precision_def vec3_defs)

lemma evaluateReactionVector_backside:
  "dot n (- d) \<le> 0 \<Longrightarrow> evaluateReactionVector law n d = 0"
  by (simp add: evaluateReactionVector_def)

text \<open>
  C1. For every surface normal \<open>n\<close> and incoming direction \<open>d\<close>, with
  \<open>cIn = n \<sqdot> (- d)\<close>: the reaction vector is the zero vector when \<open>cIn \<le> 0\<close>; otherwise
  it is \<open>(absorptivity + diffuseReflectivity) d - (2/3 diffuseReflectivity + 2
  specularReflectivity cIn) n\<close>, to which \<open>- (2/3 absorptivity) n\<close> is added exactly when
  the law has instantaneous Lambertian reradiation.
\<close>

theorem evaluateReactionVector_spec:
  "evaluateReactionVector law n d =
     (if dot n (- d) \<le> 0 then 0
      else (absorptivity law + diffuseReflectivity law) *\<^sub>R d
           - (2 / 3 * diffuseReflectivity law
              + 2 * specularReflectivity law * dot n (- d)) *\<^sub>R n
           + (if withInstantaneousLambertianReradiation law
              then - ((2 / 3 * absorptivity law) *\<^sub>R n) else 0))"
proof -
  have neg: "(- k) *\<^sub>R v = - (k *\<^sub>R v)" for k :: real and v :: vec3
    by (rule scaleR_minus_left)
  show ?thesis
    unfolding evaluateReactionVector_def Let_def neg by simp
qed

text \<open>
  C3. For every vector \<open>v\<close> and surface normal \<open>n\<close> (of unit length or not), the
  mirror-like reflection is the zero vector when \<open>v \<sqdot> n \<ge> 0\<close> and \<open>v - 2 (v \<sqdot> n) n\<close>
  otherwise. The function reads its two arguments only and returns a value: as a HOL
  function of them it has no other effect.
\<close>

theorem computeMirrorlikeReflection_spec:
  "computeMirrorlikeReflection v n =
     (if dot v n \<ge> 0 then 0 else v - (2 * dot v n) *\<^sub>R n)"
  by (simp add: computeMirrorlikeReflection_def Let_def)

text \<open>
  C4, as the code has it. The reflected fraction is 0 when \<open>cIn = n \<sqdot> (- inc) \<le> 0\<close> or
  \<open>cObs = n \<sqdot> obs \<le> 0\<close>; otherwise it is \<open>diffuseReflectivity / \<pi>\<close>, with
  \<open>specularReflectivity / cIn\<close> added exactly when the observer direction is
  approximately equal (Eigen's \<^verbatim>\<open>isApprox\<close>, relative precision \<open>1e-12\<close>) to the
  mirror direction of the incoming direction. An observer direction that equals the mirror
  direction is approximately equal to it. With non-negative reflectivities the result is
  non-negative.
\<close>

theorem evaluateReflectedFraction_spec:
  "evaluateReflectedFraction law n inc obs =
     (if dot n (- inc) \<le> 0 \<or> dot n obs \<le> 0 then 0
      else diffuseReflectivity law / pi
           + (if isApprox obs (computeMirrorlikeReflection inc n)
              then specularReflectivity law / dot n (- inc) else 0))
   \<and> (obs = computeMirrorlikeReflection inc n \<longrightarrow> isApprox obs (computeMirrorlikeReflection inc n))
   \<and> (0 \<le> diffuseReflectivity law \<and> 0 \<le> specularReflectivity law \<longrightarrow>
        0 \<le> evaluateReflectedFraction law n inc obs)"
  by (auto simp: evaluateReflectedFraction_def Let_def isApprox_refl)

theorem evaluateReflectedFraction_spec_witness:
  "isApprox (Vector3d (1 / 10 ^ 13) 0 1)
     (computeMirrorlikeReflection (Vector3d 0 0 (- 1)) (Vector3d 0 0 1))
   \<and> evaluateReflectedFraction
         \<lparr> absorptivity = 0.2, specularReflectivity = 0.6, diffuseReflectivity = 0.2,
           withInstantaneousLambertianReradiation = False \<rparr>
         (Vector3d 0 0 1) (Vector3d 0 0 (- 1)) (Vector3d (1 / 10 ^ 13) 0 1)
       = 0.2 / pi + 0.6
   \<and> 0 \<le> evaluateReflectedFraction
         \<lparr> absorptivity = 0.2, specularReflectivity = 0.6, diffuseReflectivity = 0.2,
           withInstantaneousLambertianReradiation = False \<rparr>
         (Vector3d 0 0 1) (Vector3d 0 0 (- 1)) (Vector3d (1 / 10 ^ 13) 0 1)"
  using evaluateReflectedFraction_spec
    [of "\<lparr> absorptivity = 0.2, specularReflectivity = 0.6, diffuseReflectivity = 0.2,
           withInstantaneousLambertianReradiation = False \<rparr>"
        "Vector3d 0 0 1" "Vector3d 0 0 (- 1)" "Vector3d (1 / 10 ^ 13) 0 1"]
  by (simp add: computeMirrorlikeReflection_def Let_def isApprox_def squaredNorm_def dot_def
      dummy_precision_def vec3_defs)

text \<open>
  C4, as the specification states it, fails. Take the normal \<open>(0, 0, 1)\<close> and the
  incoming direction \<open>(0, 0, -1)\<close>, whose mirror direction is \<open>(0, 0, 1)\<close>, and the
  observer direction \<open>(2t / (1 + t\<^sup>2), 0, (1 - t\<^sup>2) / (1 + t\<^sup>2))\<close> with \<open>t = 1e-13\<close>: a
  unit vector, about \<open>(2e-13, 0, 1)\<close>, that is not the mirror direction. Both cosines
  are positive, and the specular term is added all the same: the result is not
  \<open>diffuseReflectivity / \<pi>\<close>.
\<close>

theorem evaluateReflectedFraction_exact_match_counterexample:
  "squaredNorm (Vector3d (2 * 10 ^ 13 / (10 ^ 26 + 1)) 0 ((10 ^ 26 - 1) / (10 ^ 26 + 1))) = 1
   \<and> Vector3d (2 * 10 ^ 13 / (10 ^ 26 + 1)) 0 ((10 ^ 26 - 1) / (10 ^ 26 + 1))
       \<noteq> computeMirrorlikeReflection (Vector3d 0 0 (- 1)) (Vector3d 0 0 1)
   \<and> 0 < dot (Vector3d 0 0 1) (- Vector3d 0 0 (- 1))
   \<and> 0 < dot (Vector3d 0 0 1)
             (Vector3d (2 * 10 ^ 13 / (10 ^ 26 + 1)) 0 ((10 ^ 26 - 1) / (10 ^ 26 + 1)))
   \<and> evaluateReflectedFraction
         \<lparr> absorptivity = 0.2, specularReflectivity = 0.6, diffuseReflectivity = 0.2,
           withInstantaneousLambertianReradiation = False \<rparr>
         (Vector3d 0 0 1) (Vector3d 0 0 (- 1))
         (Vector3d (2 * 10 ^ 13 / (10 ^ 26 + 1)) 0 ((10 ^ 26 - 1) / (10 ^ 26 + 1)))
       \<noteq> diffuseReflectivity
           \<lparr> absorptivity = 0.2, specularReflectivity = 0.6, diffuseReflectivity = 0.2,
             withInstantaneousLambertianReradiation = False \<rparr> / pi"
  by (simp add: evaluateReflectedFraction_def computeMirrorlikeReflection_def Let_def isApprox_def
      squaredNorm_def dot_def dummy_precision_def vec3_defs)

section \<open>Properties of the target models\<close>

lemma Paneled_force_foldl_zero:
  "(\<And>p. p \<in> set panels \<Longrightarrow> evaluateReactionVector (reflectionLaw p) (surfaceNormal p) d = 0) \<Longrightarrow>
   foldl (\<lambda>force panel.
            let reactionVector = evaluateReactionVector (reflectionLaw panel) (surfaceNormal panel) d in
            force + (k * area panel) *\<^sub>R reactionVector) acc panels = acc"
  by (induction panels arbitrary: acc) (simp_all add: Let_def)

text \<open>
  C2. A single panel of area \<open>A\<close> whose (unit) normal is exactly opposite the incoming
  direction \<open>d\<close>, with the law of specular reflectivity 0.6 and diffuse reflectivity 0,
  gives for every irradiance the force of the cannonball model of reference area \<open>A\<close> and
  coefficient 1.6. Over the reals the two forces are equal, so they differ by less than
  any tolerance, \<open>1e-10\<close> included.
\<close>

theorem single_panel_equals_cannonball:
  assumes "surfaceNormal p = - d"
    and "squaredNorm d = 1"
    and "reflectionLaw p = reflectionLawFromSpecularAndDiffuseReflectivity 0.6 0"
  shows "Paneled_evaluateRadiationPressureForce [p] irr d =
           Cannonball_evaluateRadiationPressureForce
             \<lparr> referenceArea = area p, radiationPressureCoefficient = 1.6 \<rparr> irr d
         \<and> norm3 (Paneled_evaluateRadiationPressureForce [p] irr d
                   - Cannonball_evaluateRadiationPressureForce
                       \<lparr> referenceArea = area p, radiationPressureCoefficient = 1.6 \<rparr> irr d)
             \<le> 1 / 10 ^ 10"
proof -
  have cIn: "dot (- d) (- d) = 1"
    using assms(2) by (simp add: squaredNorm_def dot_def uminus_vec3_def)
  have reaction: "evaluateReactionVector (reflectionLaw p) (surfaceNormal p) d = 1.6 *\<^sub>R d"
    unfolding assms(1) assms(3) evaluateReactionVector_def Let_def cIn
    by (simp add: reflectionLawFromSpecularAndDiffuseReflectivity_def vec3_defs)
  have eq: "Paneled_evaluateRadiationPressureForce [p] irr d =
           Cannonball_evaluateRadiationPressureForce
             \<lparr> referenceArea = area p, radiationPressureCoefficient = 1.6 \<rparr> irr d"
    by (simp add: Paneled_evaluateRadiationPressureForce_def
        Cannonball_evaluateRadiationPressureForce_def Let_def reaction)
  have "norm3 (0 :: vec3) = 0"
    by (simp add: norm3_def squaredNorm_def dot_def zero_vec3_def)
  with eq show ?thesis by simp
qed

theorem single_panel_equals_cannonball_witness:
  "surfaceNormal
     \<lparr> area = 2, surfaceNormal = Vector3d 0 0 1,
       reflectionLaw = reflectionLawFromSpecularAndDiffuseReflectivity 0.6 0 \<rparr>
     = - Vector3d 0 0 (- 1)
   \<and> squaredNorm (Vector3d 0 0 (- 1)) = 1
   \<and> Paneled_evaluateRadiationPressureForce
        [\<lparr> area = 2, surfaceNormal = Vector3d 0 0 1,
           reflectionLaw = reflectionLawFromSpecularAndDiffuseReflectivity 0.6 0 \<rparr>]
        1000 (Vector3d 0 0 (- 1))
      = Cannonball_evaluateRadiationPressureForce
          \<lparr> referenceArea = 2, radiationPressureCoefficient = 1.6 \<rparr> 1000 (Vector3d 0 0 (- 1))"
  using single_panel_equals_cannonball
    [of "\<lparr> area = 2, surfaceNormal = Vector3d 0 0 1,
           reflectionLaw = reflectionLawFromSpecularAndDiffuseReflectivity 0.6 0 \<rparr>"
        "Vector3d 0 0 (- 1)" 1000]
  by (simp add: squaredNorm_def dot_def uminus_vec3_def)

text \<open>
  C6. When the normal of every panel has a non-positive dot product with the negated
  incoming direction, the reaction vector of every panel is the zero vector and the
  force accumulated over the panels is the zero vector, for every irradiance.
\<close>

theorem Paneled_backside_culling:
  assumes "\<forall>p \<in> set panels. dot (surfaceNormal p) (- d) \<le> 0"
  shows "(\<forall>p \<in> set panels. evaluateReactionVector (reflectionLaw p) (surfaceNormal p) d = 0)
         \<and> Paneled_evaluateRadiationPressureForce panels irr d = 0"
proof -
  have each: "evaluateReactionVector (reflectionLaw p) (surfaceNormal p) d = 0"
    if "p \<in> set panels" for p
    using assms that by (simp add: evaluateReactionVector_backside)
  have "Paneled_evaluateRadiationPressureForce panels irr d = 0"
    unfolding Paneled_evaluateRadiationPressureForce_def
    by (rule Paneled_force_foldl_zero) (rule each)
  with each show ?thesis by simp
qed

theorem Paneled_backside_culling_witness:
  "list_all (\<lambda>p. dot (surfaceNormal p) (- Vector3d 0 0 (- 1)) \<le> 0)
     (map (\<lambda>n. \<lparr> area = 1, surfaceNormal = n,
                  reflectionLaw = \<lparr> absorptivity = 0.2, specularReflectivity = 0.4,
                    diffuseReflectivity = 0.4, withInstantaneousLambertianReradiation = False \<rparr> \<rparr>)
        [Vector3d 1 0 (- 1), Vector3d (- 1) 0 (- 2), Vector3d 0 1 (- 3), Vector3d 0 (- 1) (- 4)])
   \<and> Paneled_evaluateRadiationPressureForce
       (map (\<lambda>n. \<lparr> area = 1, surfaceNormal = n,
                  reflectionLaw = \<lparr> absorptivity = 0.2, specularReflectivity = 0.4,
                    diffuseReflectivity = 0.4, withInstantaneousLambertianReradiation = False \<rparr> \<rparr>)
        [Vector3d 1 0 (- 1), Vector3d (- 1) 0 (- 2), Vector3d 0 1 (- 3), Vector3d 0 (- 1) (- 4)])
       1000 (Vector3d 0 0 (- 1)) = 0"
  using Paneled_backside_culling
    [of "map (\<lambda>n. \<lparr> area = 1, surfaceNormal = n,
                  reflectionLaw = \<lparr> absorptivity = 0.2, specularReflectivity = 0.4,
                    diffuseReflectivity = 0.4, withInstantaneousLambertianReradiation = False \<rparr> \<rparr>)
        [Vector3d 1 0 (- 1), Vector3d (- 1) 0 (- 2), Vector3d 0 1 (- 3), Vector3d 0 (- 1) (- 4)]"
        "Vector3d 0 0 (- 1)" 1000]
  by (simp add: dot_def uminus_vec3_def)

text \<open>
  C7. For every irradiance and source-to-target direction the cannonball force is
  \<open>(irradiance / speedOfLight) \<sqdot> referenceArea \<sqdot> radiationPressureCoefficient\<close> times the
  direction; with a radiation pressure coefficient of 0 it is the zero vector.
\<close>

theorem Cannonball_evaluateRadiationPressureForce_spec:
  "Cannonball_evaluateRadiationPressureForce m irr d =
     ((irr / speedOfLight) * referenceArea m * radiationPressureCoefficient m) *\<^sub>R d
   \<and> (radiationPressureCoefficient m = 0 \<longrightarrow> Cannonball_evaluateRadiationPressureForce m irr d = 0)"
  by (simp add: Cannonball_evaluateRadiationPressureForce_def Let_def)

theorem Cannonball_evaluateRadiationPressureForce_witness:
  "radiationPressureCoefficient \<lparr> referenceArea = 1, radiationPressureCoefficient = 0 \<rparr> = 0
   \<and> Cannonball_evaluateRadiationPressureForce
        \<lparr> referenceArea = 1, radiationPressureCoefficient = 0 \<rparr> 1367 (Vector3d (- 1) (- 1) 0) = 0"
  using Cannonball_evaluateRadiationPressureForce_spec
    [of "\<lparr> referenceArea = 1, radiationPressureCoefficient = 0 \<rparr>" 1367 "Vector3d (- 1) (- 1) 0"]
  by simp

section \<open>Properties of the acceleration model\<close>

subsection \<open>The loop over the panels\<close>

lemma updatePanel_Inr:
  assumes "updatePanel panelForce w s i = Inr s'"
  shows "i < length (currentPanelAccelerations s)"
    and "\<exists>a. s' = s\<lparr> currentPanelAccelerations := (currentPanelAccelerations s)[i := a],
                  currentAcceleration := currentAcceleration s + a,
                  invocations := invocations s @
           [Mass, PanelSurfaceNormal i, PanelArea i, PanelEmmisivitty i,
            PanelDiffuseReflectionCoefficient i] \<rparr>"
  using assms by (auto simp: updatePanel_def Let_def split: if_splits)

lemma updatePanel_in_range:
  assumes "panelVectorsInRange s" and "i < numberOfPanels s"
  shows "\<exists>s'. updatePanel panelForce w s i = Inr s' \<and> panelVectorsInRange s'"
  using assms by (simp add: updatePanel_def Let_def panelVectorsInRange_def)

lemma updatePanels_in_range:
  "panelVectorsInRange s \<Longrightarrow> \<exists>s'. updatePanels panelForce w s i = Inr s'"
proof (induction panelForce w s i rule: updatePanels.induct)
  case (1 panelForce w s i)
  show ?case
  proof (cases "i < numberOfPanels s")
    case True
    from updatePanel_in_range[OF "1.prems" True, of panelForce w]
    obtain s1 where s1: "updatePanel panelForce w s i = Inr s1" "panelVectorsInRange s1"
      by (elim exE conjE) (rule that)
    from "1.IH"[OF True s1] obtain s' where "updatePanels panelForce w s1 (i + 1) = Inr s'"
      by (elim exE) (rule that)
    with True s1 show ?thesis
      by (subst updatePanels.simps) simp
  next
    case False
    then show ?thesis
      by (subst updatePanels.simps) simp
  qed
qed

lemma updatePanels_step:
  assumes "updatePanels panelForce w s i = Inr s'" and "i < numberOfPanels s"
  obtains s1 where "updatePanel panelForce w s i = Inr s1"
    and "updatePanels panelForce w s1 (i + 1) = Inr s'"
  using assms by (subst (asm) updatePanels.simps) (simp split: sum.splits)

lemma updatePanels_done:
  assumes "updatePanels panelForce w s i = Inr s'" and "\<not> i < numberOfPanels s"
  shows "s' = s"
  using assms by (subst (asm) updatePanels.simps) simp

lemma updatePanels_frame:
  "updatePanels panelForce w s i = Inr s' \<Longrightarrow>
   \<exists>a c v. s' = s\<lparr> currentPanelAccelerations := a, currentAcceleration := c,
                     invocations := invocations s @ v \<rparr>
            \<and> length a = length (currentPanelAccelerations s)"
proof (induction panelForce w s i arbitrary: s' rule: updatePanels.induct)
  case (1 panelForce w s i)
  show ?case
  proof (cases "i < numberOfPanels s")
    case True
    from updatePanels_step[OF "1.prems" True] obtain s1
      where s1: "updatePanel panelForce w s i = Inr s1"
        and rest: "updatePanels panelForce w s1 (i + 1) = Inr s'"
      by this
    from "1.IH"[OF True s1 rest] obtain a c v
      where ih: "s' = s1\<lparr> currentPanelAccelerations := a, currentAcceleration := c,
                     invocations := invocations s1 @ v \<rparr>"
        and len: "length a = length (currentPanelAccelerations s1)"
      by (elim exE conjE) (rule that)
    from updatePanel_Inr(2)[OF s1] obtain b
      where st: "s1 = s\<lparr> currentPanelAccelerations := (currentPanelAccelerations s)[i := b],
                  currentAcceleration := currentAcceleration s + b,
                  invocations := invocations s @
           [Mass, PanelSurfaceNormal i, PanelArea i, PanelEmmisivitty i,
            PanelDiffuseReflectionCoefficient i] \<rparr>"
      by (elim exE) (rule that)
    have eq: "s' = s\<lparr> currentPanelAccelerations := a, currentAcceleration := c,
                   invocations := invocations s @
                     ([Mass, PanelSurfaceNormal i, PanelArea i, PanelEmmisivitty i,
                       PanelDiffuseReflectionCoefficient i] @ v) \<rparr>"
      unfolding ih st by simp
    have len': "length a = length (currentPanelAccelerations s)"
      unfolding len st by simp
    show ?thesis
      by (rule exI[of _ a], rule exI[of _ c],
          rule exI[of _ "[Mass, PanelSurfaceNormal i, PanelArea i, PanelEmmisivitty i,
                       PanelDiffuseReflectionCoefficient i] @ v"])
         (simp only: eq len' simp_thms)
  next
    case False
    from updatePanels_done[OF "1.prems" False]
    have eq: "s' = s\<lparr> currentPanelAccelerations := currentPanelAccelerations s,
                   currentAcceleration := currentAcceleration s,
                   invocations := invocations s @ [] \<rparr>"
      by simp
    show ?thesis
      by (rule exI[of _ "currentPanelAccelerations s"], rule exI[of _ "currentAcceleration s"],
          rule exI[of _ "[]"]) (simp only: eq simp_thms)
  qed
qed


lemma updatePanels_sum:
  "updatePanels panelForce w s i = Inr s' \<Longrightarrow>
   (\<forall>j. i \<le> j \<and> j < numberOfPanels s \<longrightarrow> j < length (currentPanelAccelerations s'))
   \<and> (\<forall>j < i. currentPanelAccelerations s' ! j = currentPanelAccelerations s ! j)
   \<and> currentAcceleration s' =
       currentAcceleration s + (\<Sum>j = i ..< numberOfPanels s. currentPanelAccelerations s' ! j)"
proof (induction panelForce w s i arbitrary: s' rule: updatePanels.induct)
  case (1 panelForce w s i)
  show ?case
  proof (cases "i < numberOfPanels s")
    case True
    from updatePanels_step[OF "1.prems" True] obtain s1
      where s1: "updatePanel panelForce w s i = Inr s1"
        and rest: "updatePanels panelForce w s1 (i + 1) = Inr s'"
      by this
    note ih = "1.IH"[OF True s1 rest]
    from updatePanel_Inr(2)[OF s1] obtain b
      where st: "s1 = s\<lparr> currentPanelAccelerations := (currentPanelAccelerations s)[i := b],
                  currentAcceleration := currentAcceleration s + b,
                  invocations := invocations s @
           [Mass, PanelSurfaceNormal i, PanelArea i, PanelEmmisivitty i,
            PanelDiffuseReflectionCoefficient i] \<rparr>"
      by (elim exE) (rule that)
    have i_in: "i < length (currentPanelAccelerations s)"
      by (rule updatePanel_Inr(1)[OF s1])
    have n1: "numberOfPanels s1 = numberOfPanels s"
      unfolding st by simp
    have a1: "currentAcceleration s1 = currentAcceleration s + b"
      unfolding st by simp
    have p1: "currentPanelAccelerations s1 = (currentPanelAccelerations s)[i := b]"
      unfolding st by simp
    have ih_range: "\<forall>j. i + 1 \<le> j \<and> j < numberOfPanels s \<longrightarrow> j < length (currentPanelAccelerations s')"
      using ih n1 by simp
    have ih_before: "\<forall>j < i + 1. currentPanelAccelerations s' ! j = (currentPanelAccelerations s)[i := b] ! j"
      using ih p1 by simp
    have ih_sum: "currentAcceleration s' =
            currentAcceleration s + b + (\<Sum>j = i + 1 ..< numberOfPanels s. currentPanelAccelerations s' ! j)"
      using ih n1 a1 by simp
    from updatePanels_frame[OF rest] obtain a c v
      where "s' = s1\<lparr> currentPanelAccelerations := a, currentAcceleration := c,
                     invocations := invocations s1 @ v \<rparr>"
        and "length a = length (currentPanelAccelerations s1)"
      by (elim exE conjE) (rule that)
    then have len: "length (currentPanelAccelerations s') = length (currentPanelAccelerations s)"
      by (simp add: p1)
    have at_i: "currentPanelAccelerations s' ! i = b"
      using ih_before i_in by simp
    have range: "\<forall>j. i \<le> j \<and> j < numberOfPanels s \<longrightarrow> j < length (currentPanelAccelerations s')"
    proof (intro allI impI)
      fix j assume j: "i \<le> j \<and> j < numberOfPanels s"
      show "j < length (currentPanelAccelerations s')"
      proof (cases "j = i")
        case True
        then show ?thesis using i_in len by simp
      next
        case False
        with j have "i + 1 \<le> j \<and> j < numberOfPanels s" by simp
        with ih_range show ?thesis by simp
      qed
    qed
    have before: "\<forall>j < i. currentPanelAccelerations s' ! j = currentPanelAccelerations s ! j"
      using ih_before by simp
    have "b + (\<Sum>j = i + 1 ..< numberOfPanels s. currentPanelAccelerations s' ! j)
               = (\<Sum>j = i ..< numberOfPanels s. currentPanelAccelerations s' ! j)"
      using True at_i by (simp add: sum.atLeast_Suc_lessThan)
    with ih_sum have total: "currentAcceleration s' =
       currentAcceleration s + (\<Sum>j = i ..< numberOfPanels s. currentPanelAccelerations s' ! j)"
      by (simp add: add.assoc)
    from range before total show ?thesis
      by (intro conjI)
  next
    case False
    from updatePanels_done[OF "1.prems" False] have "s' = s" .
    with False show ?thesis by simp
  qed
qed



subsection \<open>updateMembers\<close>

lemma updateMembers_in_range:
  assumes "panelVectorsInRange s"
  shows "\<exists>s'. updateMembers panelForce w s t = Inr s'"
proof (cases "double_eq (currentTime s) t")
  case True
  then show ?thesis by (simp add: updateMembers_def)
next
  case False
  define s1 where "s1 = s\<lparr> currentNormalizedVectorToSource :=
                      normalize (sourcePositionFunction s w - acceleratedBodyPositionFunction s w),
                    currentDistanceToSource :=
                      norm3 (sourcePositionFunction s w - acceleratedBodyPositionFunction s w),
                    currentRadiationPressure := radiationPressureFunction s w,
                    currentMass := massFunction s w,
                    currentAcceleration := 0,
                    invocations := invocations s @
                      [SourcePosition, AcceleratedBodyPosition, RadiationPressure, Mass] \<rparr>"
  have "panelVectorsInRange s1"
    using assms by (simp add: s1_def panelVectorsInRange_def)
  from updatePanels_in_range[OF this, of panelForce w 0]
  obtain s2 where s2: "updatePanels panelForce w s1 0 = Inr s2"
    by (elim exE) (rule that)
  have um: "updateMembers panelForce w s t =
      (case (if currentRadiationPressure s1 > 0 then updatePanels panelForce w s1 0 else Inr s1) of
           Inl e \<Rightarrow> Inl e
         | Inr s2 \<Rightarrow> Inr (s2\<lparr> currentTime := t \<rparr>))"
    using False by (simp add: updateMembers_def Let_def s1_def)
  show ?thesis
    unfolding um using s2 by simp
qed

lemma updateMembers_recompute:
  assumes new: "\<not> double_eq (currentTime s) t"
    and ok: "updateMembers panelForce w s t = Inr s'"
  shows "\<exists>a c v.
      s' = s\<lparr> currentNormalizedVectorToSource :=
                 normalize (sourcePositionFunction s w - acceleratedBodyPositionFunction s w),
               currentDistanceToSource :=
                 norm3 (sourcePositionFunction s w - acceleratedBodyPositionFunction s w),
               currentRadiationPressure := radiationPressureFunction s w,
               currentMass := massFunction s w,
               currentPanelAccelerations := a,
               currentAcceleration := c,
               invocations := invocations s @
                 [SourcePosition, AcceleratedBodyPosition, RadiationPressure, Mass] @ v,
               currentTime := t \<rparr>
      \<and> length a = length (currentPanelAccelerations s)
      \<and> (if radiationPressureFunction s w > 0
          then numberOfPanels s \<le> length a \<and> c = (\<Sum>j < numberOfPanels s. a ! j)
          else a = currentPanelAccelerations s \<and> c = 0 \<and> v = [])"
proof -
  define s1 where "s1 = s\<lparr> currentNormalizedVectorToSource :=
                      normalize (sourcePositionFunction s w - acceleratedBodyPositionFunction s w),
                    currentDistanceToSource :=
                      norm3 (sourcePositionFunction s w - acceleratedBodyPositionFunction s w),
                    currentRadiationPressure := radiationPressureFunction s w,
                    currentMass := massFunction s w,
                    currentAcceleration := 0,
                    invocations := invocations s @
                      [SourcePosition, AcceleratedBodyPosition, RadiationPressure, Mass] \<rparr>"
  have um: "updateMembers panelForce w s t =
      (case (if radiationPressureFunction s w > 0 then updatePanels panelForce w s1 0 else Inr s1) of
           Inl e \<Rightarrow> Inl e
         | Inr s2 \<Rightarrow> Inr (s2\<lparr> currentTime := t \<rparr>))"
    using new by (simp add: updateMembers_def Let_def s1_def)
  show ?thesis
  proof (cases "radiationPressureFunction s w > 0")
    case True
    from ok[unfolded um] True obtain s2 where s2: "updatePanels panelForce w s1 0 = Inr s2"
      and s': "s' = s2\<lparr> currentTime := t \<rparr>"
      by (cases "updatePanels panelForce w s1 0") simp_all
    from updatePanels_frame[OF s2] obtain a c v
      where fr: "s2 = s1\<lparr> currentPanelAccelerations := a, currentAcceleration := c,
                     invocations := invocations s1 @ v \<rparr>"
        and len: "length a = length (currentPanelAccelerations s1)"
      by (elim exE conjE) (rule that)
    have sum0: "(\<forall>j. 0 \<le> j \<and> j < numberOfPanels s1 \<longrightarrow> j < length (currentPanelAccelerations s2))
      \<and> (\<forall>j < 0. currentPanelAccelerations s2 ! j = currentPanelAccelerations s1 ! j)
      \<and> currentAcceleration s2 =
          currentAcceleration s1 + (\<Sum>j = 0 ..< numberOfPanels s1. currentPanelAccelerations s2 ! j)"
      by (rule updatePanels_sum[OF s2])
    have a2: "currentPanelAccelerations s2 = a" and c2: "currentAcceleration s2 = c"
      unfolding fr by simp_all
    have n1: "numberOfPanels s1 = numberOfPanels s" and c1: "currentAcceleration s1 = 0"
      and p1: "currentPanelAccelerations s1 = currentPanelAccelerations s"
      unfolding s1_def by simp_all
    have csum: "c = (\<Sum>j < numberOfPanels s. a ! j)"
      using sum0 unfolding a2 c2 n1 c1 by (simp add: atLeast0LessThan)
    have "\<forall>j. j < numberOfPanels s \<longrightarrow> j < length a"
      using sum0 unfolding a2 n1 by simp
    then have nle: "numberOfPanels s \<le> length a"
      by (meson not_less order_refl)
    have eq: "s' = s\<lparr> currentNormalizedVectorToSource :=
                 normalize (sourcePositionFunction s w - acceleratedBodyPositionFunction s w),
               currentDistanceToSource :=
                 norm3 (sourcePositionFunction s w - acceleratedBodyPositionFunction s w),
               currentRadiationPressure := radiationPressureFunction s w,
               currentMass := massFunction s w,
               currentPanelAccelerations := a,
               currentAcceleration := c,
               invocations := invocations s @
                 [SourcePosition, AcceleratedBodyPosition, RadiationPressure, Mass] @ v,
               currentTime := t \<rparr>"
      unfolding s' fr s1_def by simp
    have len': "length a = length (currentPanelAccelerations s)"
      using len p1 by simp
    show ?thesis
      by (rule exI[of _ a], rule exI[of _ c], rule exI[of _ v])
         (simp only: eq[symmetric] len' True nle[unfolded len'] csum[symmetric] if_True simp_thms)
  next
    case False
    from ok[unfolded um] False have s': "s' = s1\<lparr> currentTime := t \<rparr>"
      by simp
    have eq: "s' = s\<lparr> currentNormalizedVectorToSource :=
                 normalize (sourcePositionFunction s w - acceleratedBodyPositionFunction s w),
               currentDistanceToSource :=
                 norm3 (sourcePositionFunction s w - acceleratedBodyPositionFunction s w),
               currentRadiationPressure := radiationPressureFunction s w,
               currentMass := massFunction s w,
               currentPanelAccelerations := currentPanelAccelerations s,
               currentAcceleration := 0,
               invocations := invocations s @
                 [SourcePosition, AcceleratedBodyPosition, RadiationPressure, Mass] @ [],
               currentTime := t \<rparr>"
      unfolding s' s1_def by simp
    show ?thesis
      by (rule exI[of _ "currentPanelAccelerations s"], rule exI[of _ 0], rule exI[of _ "[]"])
         (simp only: eq[symmetric] False if_False simp_thms)
  qed
qed


lemma new_in_range:
  assumes "length em \<le> length sn" and "length em \<le> length ar" and "length em \<le> length df"
  shows "panelVectorsInRange (newPanelledRadiationPressureAcceleration sp ab em df sn ar rp mf u)"
  using assms by (simp add: newPanelledRadiationPressureAcceleration_def panelVectorsInRange_def)


lemma updateMembers_hit:
  "double_eq (currentTime s) t \<Longrightarrow> updateMembers panelForce w s t = Inr s"
  by (simp add: updateMembers_def)

lemma updateMembers_currentTime:
  assumes "updateMembers panelForce w s t = Inr s'" and "t \<noteq> NaN"
  shows "double_eq (currentTime s') t"
proof (cases "double_eq (currentTime s) t")
  case True
  with assms(1) have "s' = s" by (simp add: updateMembers_def)
  with True show ?thesis by simp
next
  case False
  from updateMembers_recompute[OF False assms(1)] obtain a c v
    where "s' = s\<lparr> currentNormalizedVectorToSource :=
                 normalize (sourcePositionFunction s w - acceleratedBodyPositionFunction s w),
               currentDistanceToSource :=
                 norm3 (sourcePositionFunction s w - acceleratedBodyPositionFunction s w),
               currentRadiationPressure := radiationPressureFunction s w,
               currentMass := massFunction s w,
               currentPanelAccelerations := a,
               currentAcceleration := c,
               invocations := invocations s @
                 [SourcePosition, AcceleratedBodyPosition, RadiationPressure, Mass] @ v,
               currentTime := t \<rparr>"
    by (elim exE conjE) (rule that)
  then have "currentTime s' = t" by simp
  with assms(2) show ?thesis by (simp add: double_eq_def)
qed

lemma updateMembers_recomputed_fields:
  assumes new: "\<not> double_eq (currentTime s) t"
    and ok: "updateMembers panelForce w s t = Inr s'"
  shows "currentTime s' = t"
    and "currentNormalizedVectorToSource s' =
           normalize (sourcePositionFunction s w - acceleratedBodyPositionFunction s w)"
    and "currentDistanceToSource s' =
           norm3 (sourcePositionFunction s w - acceleratedBodyPositionFunction s w)"
    and "currentRadiationPressure s' = radiationPressureFunction s w"
    and "currentMass s' = massFunction s w"
    and "\<exists>v. invocations s' = invocations s @
           [SourcePosition, AcceleratedBodyPosition, RadiationPressure, Mass] @ v"
    and "numberOfPanels s' = numberOfPanels s"
    and "radiationPressureFunction s w > 0 \<Longrightarrow>
           numberOfPanels s' \<le> length (currentPanelAccelerations s')"
    and "getAcceleration s' =
           (if radiationPressureFunction s w > 0
            then (\<Sum>j < numberOfPanels s'. currentPanelAccelerations s' ! j) else 0)"
proof -
  from updateMembers_recompute[OF new ok] obtain a c v
    where eq: "s' = s\<lparr> currentNormalizedVectorToSource :=
                 normalize (sourcePositionFunction s w - acceleratedBodyPositionFunction s w),
               currentDistanceToSource :=
                 norm3 (sourcePositionFunction s w - acceleratedBodyPositionFunction s w),
               currentRadiationPressure := radiationPressureFunction s w,
               currentMass := massFunction s w,
               currentPanelAccelerations := a,
               currentAcceleration := c,
               invocations := invocations s @
                 [SourcePosition, AcceleratedBodyPosition, RadiationPressure, Mass] @ v,
               currentTime := t \<rparr>"
      and cond: "if radiationPressureFunction s w > 0
          then numberOfPanels s \<le> length a \<and> c = (\<Sum>j < numberOfPanels s. a ! j)
          else a = currentPanelAccelerations s \<and> c = 0 \<and> v = []"
    by (elim exE conjE) (rule that)
  show "currentTime s' = t"
    and "currentNormalizedVectorToSource s' =
           normalize (sourcePositionFunction s w - acceleratedBodyPositionFunction s w)"
    and "currentDistanceToSource s' =
           norm3 (sourcePositionFunction s w - acceleratedBodyPositionFunction s w)"
    and "currentRadiationPressure s' = radiationPressureFunction s w"
    and "currentMass s' = massFunction s w"
    and "numberOfPanels s' = numberOfPanels s"
    unfolding eq by simp_all
  show "\<exists>v. invocations s' = invocations s @
           [SourcePosition, AcceleratedBodyPosition, RadiationPressure, Mass] @ v"
    by (rule exI[of _ v]) (simp add: eq)
  show "numberOfPanels s' \<le> length (currentPanelAccelerations s')"
    if "radiationPressureFunction s w > 0"
    using cond that by (simp add: eq)
  show "getAcceleration s' =
           (if radiationPressureFunction s w > 0
            then (\<Sum>j < numberOfPanels s'. currentPanelAccelerations s' ! j) else 0)"
    using cond by (simp add: eq getAcceleration_def split: if_splits)
qed


subsection \<open>The concrete model\<close>

lemma exampleModel_in_range: "panelVectorsInRange (exampleModel pressure)"
  by (simp add: exampleModel_def new_in_range)

lemma exampleModel_fields:
  "currentTime (exampleModel pressure) = TUDAT_NAN"
  "radiationPressureFunction (exampleModel pressure) w = pressure"
  "massFunction (exampleModel pressure) w = 10"
  "sourcePositionFunction (exampleModel pressure) w = Vector3d 1 0 0"
  "acceleratedBodyPositionFunction (exampleModel pressure) w = Vector3d 0 0 0"
  "currentPanelAccelerations (exampleModel pressure) = [Vector3d 7 7 7, Vector3d 7 7 7]"
  "invocations (exampleModel pressure) = []"
  by (simp_all add: exampleModel_def newPanelledRadiationPressureAcceleration_def
      exampleIndeterminate_def AccelerationModel_initialTime_def)



subsection \<open>The cache\<close>

text \<open>
  C5. When the time \<open>t\<close> equals the cached time (the \<^verbatim>\<open>==\<close> of C++, which NaN never
  satisfies), \<open>updateMembers t\<close> returns the object as it is: the cached acceleration,
  every other member and the record of provider invocations are unchanged, so no
  provider has been called. Hence a second evaluation at the same time \<open>t\<close> (not NaN),
  in whatever environment \<open>w'\<close>, leaves the object that the first one produced as it is.
\<close>

theorem updateMembers_same_time_cached:
  "(double_eq (currentTime s) t \<longrightarrow> updateMembers panelForce w s t = Inr s)
   \<and> (t \<noteq> NaN \<and> updateMembers panelForce w s t = Inr s' \<longrightarrow>
        updateMembers panelForce w' s' t = Inr s')"
proof (intro conjI impI)
  assume "double_eq (currentTime s) t"
  then show "updateMembers panelForce w s t = Inr s"
    by (rule updateMembers_hit)
next
  assume "t \<noteq> NaN \<and> updateMembers panelForce w s t = Inr s'"
  then have "updateMembers panelForce w s t = Inr s'" and "t \<noteq> NaN"
    by simp_all
  then have "double_eq (currentTime s') t"
    by (rule updateMembers_currentTime)
  then show "updateMembers panelForce w' s' t = Inr s'"
    by (rule updateMembers_hit)
qed

theorem updateMembers_same_time_cached_witness:
  "double_eq (currentTime ((exampleModel 1)\<lparr> currentTime := Finite 5 \<rparr>)) (Finite 5)
   \<and> updateMembers examplePanelForce () ((exampleModel 1)\<lparr> currentTime := Finite 5 \<rparr>) (Finite 5)
       = Inr ((exampleModel 1)\<lparr> currentTime := Finite 5 \<rparr>)
   \<and> Finite 5 \<noteq> NaN
   \<and> (\<exists>s'. updateMembers examplePanelForce () (exampleModel 1) (Finite 5) = Inr s'
            \<and> updateMembers examplePanelForce () s' (Finite 5) = Inr s')"
proof -
  have hit: "double_eq (currentTime ((exampleModel 1)\<lparr> currentTime := Finite 5 \<rparr>)) (Finite 5)"
    by (simp add: double_eq_def)
  from updateMembers_in_range[OF exampleModel_in_range, of examplePanelForce "()" 1 "Finite 5"]
  obtain s' where first: "updateMembers examplePanelForce () (exampleModel 1) (Finite 5) = Inr s'"
    by (elim exE) (rule that)
  have "updateMembers examplePanelForce () s' (Finite 5) = Inr s'"
    using updateMembers_same_time_cached
      [of "exampleModel 1" "Finite 5" examplePanelForce "()" s' "()"] first
    by simp
  with first have twice: "\<exists>s'. updateMembers examplePanelForce () (exampleModel 1) (Finite 5) = Inr s'
            \<and> updateMembers examplePanelForce () s' (Finite 5) = Inr s'"
    by (intro exI[of _ s'] conjI)
  show ?thesis
    using updateMembers_same_time_cached
      [of "(exampleModel 1)\<lparr> currentTime := Finite 5 \<rparr>" "Finite 5" examplePanelForce "()"]
      hit twice
    by simp
qed



text \<open>
  C9. After an \<open>updateMembers\<close> call with a new time at which the radiation pressure is
  positive, every panel index below \<open>numberOfPanels\<close> is in range for
  \<open>getCurrentPanelAcceleration\<close>, and the acceleration that \<open>getAcceleration\<close> returns is
  the sum of \<open>getCurrentPanelAcceleration i\<close> over these indices. The call returns
  whenever the indexed vectors are long enough.
\<close>

theorem updateMembers_total_is_sum_of_panels:
  assumes new: "\<not> double_eq (currentTime s) t"
    and lit: "radiationPressureFunction s w > 0"
  shows "(panelVectorsInRange s \<longrightarrow> (\<exists>s'. updateMembers panelForce w s t = Inr s'))
       \<and> (\<forall>s'. updateMembers panelForce w s t = Inr s' \<longrightarrow>
            currentRadiationPressure s' > 0
            \<and> (\<forall>i < numberOfPanels s'.
                  getCurrentPanelAcceleration s' i = Inr (currentPanelAccelerations s' ! i))
            \<and> getAcceleration s' =
                (\<Sum>i < numberOfPanels s'. currentPanelAccelerations s' ! i))"
proof (intro conjI allI impI)
  assume "panelVectorsInRange s"
  then show "\<exists>s'. updateMembers panelForce w s t = Inr s'"
    by (rule updateMembers_in_range)
next
  fix s' assume ok: "updateMembers panelForce w s t = Inr s'"
  note f = updateMembers_recomputed_fields[OF new ok]
  show "currentRadiationPressure s' > 0"
    using f(4) lit by simp
  show "getAcceleration s' = (\<Sum>i < numberOfPanels s'. currentPanelAccelerations s' ! i)"
    using f(9) lit by simp
  fix i assume "i < numberOfPanels s'"
  with f(8)[OF lit] have "i < length (currentPanelAccelerations s')" by simp
  then show "getCurrentPanelAcceleration s' i = Inr (currentPanelAccelerations s' ! i)"
    by (simp add: getCurrentPanelAcceleration_def)
qed

theorem updateMembers_total_is_sum_of_panels_witness:
  "\<not> double_eq (currentTime (exampleModel 1)) (Finite 0)
   \<and> radiationPressureFunction (exampleModel 1) () > 0
   \<and> panelVectorsInRange (exampleModel 1)
   \<and> (\<exists>s'. updateMembers examplePanelForce () (exampleModel 1) (Finite 0) = Inr s'
         \<and> getCurrentPanelAcceleration s' 0 = Inr (currentPanelAccelerations s' ! 0)
         \<and> getCurrentPanelAcceleration s' 1 = Inr (currentPanelAccelerations s' ! 1)
         \<and> getAcceleration s' = (\<Sum>i < numberOfPanels s'. currentPanelAccelerations s' ! i))"
proof -
  have new: "\<not> double_eq (currentTime (exampleModel 1)) (Finite 0)"
    by (simp add: exampleModel_fields TUDAT_NAN_def double_eq_def)
  have lit: "radiationPressureFunction (exampleModel 1) () > 0"
    by (simp add: exampleModel_fields)
  note inst = updateMembers_total_is_sum_of_panels[OF new lit, of examplePanelForce]
  from inst exampleModel_in_range[of 1]
  obtain s' where s': "updateMembers examplePanelForce () (exampleModel 1) (Finite 0) = Inr s'"
    by (elim conjE exE impE)
  from updateMembers_recomputed_fields(7)[OF new s']
  have n: "numberOfPanels s' = 2"
    by (simp add: exampleModel_def newPanelledRadiationPressureAcceleration_def)
  have "\<exists>s'. updateMembers examplePanelForce () (exampleModel 1) (Finite 0) = Inr s'
         \<and> getCurrentPanelAcceleration s' 0 = Inr (currentPanelAccelerations s' ! 0)
         \<and> getCurrentPanelAcceleration s' 1 = Inr (currentPanelAccelerations s' ! 1)
         \<and> getAcceleration s' = (\<Sum>i < numberOfPanels s'. currentPanelAccelerations s' ! i)"
    using inst s' n by (intro exI[of _ s']) simp
  with new lit exampleModel_in_range[of 1] show ?thesis
    by (intro conjI)
qed

text \<open>
  C10. An \<open>updateMembers\<close> call with a new time at which the radiation pressure provider
  returns a value \<open>\<le> 0\<close> returns with the total acceleration set to the zero vector; the
  providers invoked are the source position, body position, radiation pressure and mass
  providers and no other, so no panel normal, area, emissivity or diffuse coefficient
  provider; the stored panel accelerations are what they were before the call.
\<close>

theorem updateMembers_no_pressure:
  assumes new: "\<not> double_eq (currentTime s) t"
    and dark: "radiationPressureFunction s w \<le> 0"
  shows "\<exists>s'. updateMembers panelForce w s t = Inr s'
           \<and> getAcceleration s' = 0
           \<and> currentPanelAccelerations s' = currentPanelAccelerations s
           \<and> invocations s' = invocations s @
                [SourcePosition, AcceleratedBodyPosition, RadiationPressure, Mass]"
proof -
  define s' where "s' = s\<lparr> currentNormalizedVectorToSource :=
                      normalize (sourcePositionFunction s w - acceleratedBodyPositionFunction s w),
                    currentDistanceToSource :=
                      norm3 (sourcePositionFunction s w - acceleratedBodyPositionFunction s w),
                    currentRadiationPressure := radiationPressureFunction s w,
                    currentMass := massFunction s w,
                    currentAcceleration := 0,
                    invocations := invocations s @
                      [SourcePosition, AcceleratedBodyPosition, RadiationPressure, Mass],
                    currentTime := t \<rparr>"
  have "updateMembers panelForce w s t = Inr s'"
    using new dark by (simp add: updateMembers_def Let_def s'_def)
  moreover have "getAcceleration s' = 0"
    and "currentPanelAccelerations s' = currentPanelAccelerations s"
    and "invocations s' = invocations s @
                [SourcePosition, AcceleratedBodyPosition, RadiationPressure, Mass]"
    by (simp_all add: s'_def getAcceleration_def)
  ultimately show ?thesis
    by (intro exI[of _ s'] conjI)
qed

theorem updateMembers_no_pressure_witness:
  "\<not> double_eq (currentTime (exampleModel 0)) (Finite 0)
   \<and> radiationPressureFunction (exampleModel 0) () \<le> 0
   \<and> (\<exists>s'. updateMembers examplePanelForce () (exampleModel 0) (Finite 0) = Inr s'
         \<and> getAcceleration s' = 0
         \<and> currentPanelAccelerations s' = [Vector3d 7 7 7, Vector3d 7 7 7]
         \<and> invocations s' = [SourcePosition, AcceleratedBodyPosition, RadiationPressure, Mass])"
proof -
  have new: "\<not> double_eq (currentTime (exampleModel 0)) (Finite 0)"
    by (simp add: exampleModel_fields TUDAT_NAN_def double_eq_def)
  have dark: "radiationPressureFunction (exampleModel 0) () \<le> 0"
    by (simp add: exampleModel_fields)
  from updateMembers_no_pressure[OF new dark, of examplePanelForce]
  have "\<exists>s'. updateMembers examplePanelForce () (exampleModel 0) (Finite 0) = Inr s'
         \<and> getAcceleration s' = 0
         \<and> currentPanelAccelerations s' = [Vector3d 7 7 7, Vector3d 7 7 7]
         \<and> invocations s' = [SourcePosition, AcceleratedBodyPosition, RadiationPressure, Mass]"
    by (simp add: exampleModel_fields)
  with new dark show ?thesis
    by (intro conjI)
qed

end
